theory Spec2Isabelle
  imports Main "HOL-Library.Word"
begin

section \<open>The paused request of the Fetch domain (FetchRequestPaused.ts)\<close>

text \<open>
  A shallow embedding of the class \<open>FetchRequestPaused\<close>. JavaScript strings are
  modelled as \<^typ>\<open>string\<close>, read as the UTF-8 bytes of the text, so that the byte
  length of a text is its \<^const>\<open>length\<close> and the empty string is \<open>[]\<close>. A value that
  may be \<open>undefined\<close> is an \<^typ>\<open>'a option\<close>. An \<open>async\<close> method is a function from
  the object's state and the outcome of the one \<open>send\<close> it may await to its result
  (\<open>Inl\<close> for a rejected promise) and the state it leaves behind.
\<close>

subsection \<open>Errors and the Session\<close>

datatype error =
    Error string           \<comment> \<open>\<open>new Error(message)\<close>\<close>
  | ProtocolError string   \<comment> \<open>what the Session rejects a command with\<close>

text \<open>\<open>Protocol.Network.ErrorReason\<close>, a union of string literals (devtools-protocol).\<close>

datatype ErrorReason =
    Failed | Aborted | TimedOut | AccessDenied | ConnectionClosed | ConnectionReset
  | ConnectionRefused | ConnectionAborted | ConnectionFailed | NameNotResolved
  | InternetDisconnected | AddressUnreachable | BlockedByClient | BlockedByResponse

text \<open>
  The three commands the class sends, with the parameters it passes. A parameter passed
  as \<open>undefined\<close> is absent from the command: \<open>None\<close>.
\<close>

datatype command =
    Fetch_continueRequest
      (requestId: string) (url: "string option") (method': "string option")
      (postData: "string option") (headers: "(string \<times> string) list option")
  | Fetch_failRequest
      (requestId: string) (errorReason: ErrorReason)
  | Fetch_fulfillRequest
      (requestId: string) (responseCode: int) (responsePhrase: "string option")
      (responseHeaders: "(string \<times> string) list") (body: "string option")

text \<open>
  The \<open>CDPSession\<close> is an external collaborator. It is modelled by the list of commands
  it has been sent, oldest first; the promise \<open>send\<close> returns is settled by the remote
  end, which the model takes as an argument.
\<close>

type_synonym CDPSession = "command list"

datatype outcome = Resolved | Rejected error

definition send :: "CDPSession \<Rightarrow> command \<Rightarrow> outcome \<Rightarrow> (error + unit) \<times> CDPSession" where
  "send client cmd out =
     ((case out of Resolved \<Rightarrow> Inr () | Rejected e \<Rightarrow> Inl e), client @ [cmd])"

subsection \<open>The object\<close>

text \<open>
  \<open>Protocol.Fetch.RequestPausedEvent\<close>: the fields the accessors read. The request
  description, an object of the protocol, is kept as an opaque text.
\<close>

record RequestPausedEvent =
  event_requestId :: string
  event_networkId :: "string option"
  event_request :: string
  event_frameId :: "string option"
  event_resourceType :: string

record FetchRequestPaused =
  client :: CDPSession
  event :: RequestPausedEvent
  handled :: bool

definition constructor :: "CDPSession \<Rightarrow> RequestPausedEvent \<Rightarrow> FetchRequestPaused" where
  "constructor cl ev = \<lparr>client = cl, event = ev, handled = False\<rparr>"

text \<open>
  \<open>handleError\<close> is imported from \<open>../api/HTTPRequest.js\<close>. The methods call it in
  the \<open>catch\<close> of the send and return what it returns: it either throws (\<open>Inl\<close>) or
  returns normally (\<open>Inr\<close>). The methods take it as their first argument.
\<close>

type_synonym handler = "error \<Rightarrow> error + unit"

text \<open>
  Modelled from the spec: \<open>handleError\<close> of \<open>../api/HTTPRequest.js\<close>, a module that is
  not among the source files. The spec, 4.1 step 4: on failure of the send, "revert
  \<open>handled = false\<close> and propagate the normalized error to the caller". The
  normalisation itself is not described, so it is a parameter.
\<close>

definition handleError :: "(error \<Rightarrow> error) \<Rightarrow> handler" where
  "handleError normalise e = Inl (normalise e)"

subsection \<open>abort\<close>

definition abort ::
  "handler \<Rightarrow> FetchRequestPaused \<Rightarrow> ErrorReason option \<Rightarrow> outcome
     \<Rightarrow> (error + unit) \<times> FetchRequestPaused" where
  "abort handle this errorReason' out =
     (if handled this then (Inl (Error ''Request has already been handled''), this)
      else
        let this1 = this\<lparr>handled := True\<rparr>;
            cmd = Fetch_failRequest (event_requestId (event this1))
                    (case errorReason' of None \<Rightarrow> Failed | Some r \<Rightarrow> r);
            (res, cl) = send (client this1) cmd out;
            this2 = this1\<lparr>client := cl\<rparr>
        in (case res of
              Inr u \<Rightarrow> (Inr (), this2)
            | Inl e \<Rightarrow> (handle e, this2\<lparr>handled := False\<rparr>)))"

subsection \<open>Wire-format helpers\<close>

text \<open>\<open>new TextEncoder().encode(str)\<close>: the UTF-8 bytes of a string.\<close>

definition TextEncoder_encode :: "string \<Rightarrow> 8 word list" where
  "TextEncoder_encode str = map of_char str"

definition base64_alphabet :: string where
  "base64_alphabet = ''ABCDEFGHIJKLMNOPQRSTUVWXYZabcdefghijklmnopqrstuvwxyz0123456789+/''"

definition base64_digit :: "nat \<Rightarrow> char" where
  "base64_digit n = base64_alphabet ! (n mod 64)"

text \<open>
  Modelled from the spec: \<open>typedArrayToBase64\<close> and \<open>stringToBase64\<close> of
  \<open>../util/encoding.js\<close>, a module that is not among the source files. The spec's
  glossary: the binary-safe text encoding is "a reversible encoding of arbitrary bytes
  into a text-safe alphabet"; the source names it Base64. Three bytes become four
  digits of the alphabet, and a last group of one or two bytes is padded with \<open>=\<close>.
\<close>

fun typedArrayToBase64 :: "8 word list \<Rightarrow> string" where
  "typedArrayToBase64 [] = []"
| "typedArrayToBase64 [a] =
     [base64_digit (unat a div 4), base64_digit (unat a mod 4 * 16), CHR ''='', CHR ''='']"
| "typedArrayToBase64 [a, b] =
     [base64_digit (unat a div 4), base64_digit (unat a mod 4 * 16 + unat b div 16),
      base64_digit (unat b mod 16 * 4), CHR ''='']"
| "typedArrayToBase64 (a # b # c # rest) =
     [base64_digit (unat a div 4), base64_digit (unat a mod 4 * 16 + unat b div 16),
      base64_digit (unat b mod 16 * 4 + unat c div 64), base64_digit (unat c mod 64)]
     @ typedArrayToBase64 rest"

definition stringToBase64 :: "string \<Rightarrow> string" where
  "stringToBase64 str = typedArrayToBase64 (TextEncoder_encode str)"

text \<open>The value of a header in a header map: \<open>string | string[]\<close>.\<close>

datatype header_value = Str string | Strs "string list"

text \<open>
  Modelled from the spec: \<open>headersArray\<close> of \<open>../api/HTTPRequest.js\<close>, a module that
  is not among the source files. The spec, 6 and 9: "header-map \<rightarrow> ordered pair list
  flattening", "a pure function from an arbitrary string-keyed map (values: string or
  ordered string list) to an ordered list of (name, value) pairs"; the glossary: "with
  single names but potentially repeated values".
\<close>

fun headersArray :: "(string \<times> header_value) list \<Rightarrow> (string \<times> string) list" where
  "headersArray [] = []"
| "headersArray ((name, Str v) # rest) = (name, v) # headersArray rest"
| "headersArray ((name, Strs vs) # rest) = map (\<lambda>v. (name, v)) vs @ headersArray rest"

subsection \<open>continue\<close>

text \<open>\<open>ContinueRequestOverrides\<close>: every field is optional.\<close>

record ContinueRequestOverrides =
  overrides_url :: "string option"
  overrides_method :: "string option"
  overrides_postData :: "string option"
  overrides_headers :: "(string \<times> string) list option"

text \<open>
  A string is truthy when it is not empty, so \<open>postData ? ... : undefined\<close> is
  \<open>undefined\<close> for the empty string as for an omitted field. An object is always truthy.
\<close>

definition continue ::
  "handler \<Rightarrow> FetchRequestPaused \<Rightarrow> ContinueRequestOverrides \<Rightarrow> outcome
     \<Rightarrow> (error + unit) \<times> FetchRequestPaused" where
  "continue handle this overrides out =
     (if handled this then (Inl (Error ''Request has already been handled''), this)
      else
        let this1 = this\<lparr>handled := True\<rparr>;
            postDataBinaryBase64 =
              (case overrides_postData overrides of
                 None \<Rightarrow> None
               | Some postData' \<Rightarrow>
                   if postData' \<noteq> [] then Some (stringToBase64 postData') else None);
            cmd = Fetch_continueRequest (event_requestId (event this1))
                    (overrides_url overrides) (overrides_method overrides)
                    postDataBinaryBase64
                    (case overrides_headers overrides of
                       None \<Rightarrow> None
                     | Some hs \<Rightarrow> Some (headersArray (map (\<lambda>(n, v). (n, Str v)) hs)));
            (res, cl) = send (client this1) cmd out;
            this2 = this1\<lparr>client := cl\<rparr>
        in (case res of
              Inr u \<Rightarrow> (Inr (), this2)
            | Inl e \<Rightarrow> (handle e, this2\<lparr>handled := False\<rparr>)))"

subsection \<open>JavaScript values, strings and objects\<close>

text \<open>
  The values a caller can put in a header map (\<open>string | string[] | unknown\<close>). Numbers
  are the integers (a status or a header value that is a fraction or \<open>NaN\<close> is
  outside the model); \<open>String\<close> prints an integer of magnitude below \<open>10^21\<close> in
  decimal, and the model prints every integer so.
\<close>

datatype js_value =
    JString string | JNumber int | JBoolean bool | JUndefined | JNull
  | JArray "js_value list"

fun Number_toString_nat :: "nat \<Rightarrow> string" where
  "Number_toString_nat n =
     (if n < 10 then [char_of (48 + n)]
      else Number_toString_nat (n div 10) @ [char_of (48 + n mod 10)])"

definition Number_toString :: "int \<Rightarrow> string" where
  "Number_toString i =
     (if i < 0 then CHR ''-'' # Number_toString_nat (nat (- i)) else Number_toString_nat (nat i))"

fun Array_join :: "string list \<Rightarrow> string" where
  "Array_join [] = []"
| "Array_join [x] = x"
| "Array_join (x # y # ys) = x @ '','' @ Array_join (y # ys)"

text \<open>
  \<open>String(value)\<close>. An array prints as its elements joined by commas, where
  \<open>undefined\<close> and \<open>null\<close> elements print as the empty string.
\<close>

fun String :: "js_value \<Rightarrow> string" and String_elements :: "js_value list \<Rightarrow> string list" where
  "String (JString s) = s"
| "String (JNumber i) = Number_toString i"
| "String (JBoolean b) = (if b then ''true'' else ''false'')"
| "String JUndefined = ''undefined''"
| "String JNull = ''null''"
| "String (JArray items) = Array_join (String_elements items)"
| "String_elements [] = []"
| "String_elements (x # xs) =
     (case x of JUndefined \<Rightarrow> [] | JNull \<Rightarrow> [] | _ \<Rightarrow> String x) # String_elements xs"

text \<open>
  \<open>toLowerCase\<close> on the ASCII letters; every other byte is kept. (The name of an HTTP
  header is made of ASCII characters; the case folding of other letters is not
  modelled.)
\<close>

definition toLowerCase_char :: "char \<Rightarrow> char" where
  "toLowerCase_char c =
     (if (65::nat) \<le> of_char c \<and> of_char c \<le> (90::nat) then char_of (of_char c + (32::nat)) else c)"

definition toLowerCase :: "string \<Rightarrow> string" where
  "toLowerCase s = map toLowerCase_char s"

text \<open>
  An object used as a string-keyed map is the list of its own properties in the order
  \<open>Object.keys\<close> and \<open>for ... in\<close> enumerate them: the keys that are array indices
  (canonical decimal numerals below \<open>2^32 - 1\<close>) in ascending numeric order, then the
  other keys in the order of their creation. The keys of an object are distinct.
\<close>

type_synonym 'v js_object = "(string \<times> 'v) list"

definition nat_of_digits :: "string \<Rightarrow> nat" where
  "nat_of_digits k = foldl (\<lambda>a c. 10 * a + (of_char c - 48)) 0 k"

definition is_array_index :: "string \<Rightarrow> bool" where
  "is_array_index k =
     (k \<noteq> [] \<and> list_all (\<lambda>c. (48::nat) \<le> of_char c \<and> of_char c \<le> (57::nat)) k
      \<and> Number_toString_nat (nat_of_digits k) = k \<and> nat_of_digits k < 4294967295)"

text \<open>\<open>key in obj\<close>, for a key that \<open>Object.prototype\<close> does not define.\<close>

definition js_in :: "string \<Rightarrow> 'v js_object \<Rightarrow> bool" where
  "js_in k obj = (k \<in> set (map fst obj))"

fun insert_index :: "nat \<Rightarrow> string \<Rightarrow> 'v \<Rightarrow> 'v js_object \<Rightarrow> 'v js_object" where
  "insert_index n k v [] = [(k, v)]"
| "insert_index n k v ((k', v') # obj) =
     (if is_array_index k' \<and> nat_of_digits k' < n then (k', v') # insert_index n k v obj
      else (k, v) # (k', v') # obj)"

text \<open>
  \<open>obj[k] = v\<close> on an object that inherits from \<open>Object.prototype\<close>, as one
  created by \<open>{}\<close> does: an existing property keeps its place and takes the new
  value; a new one is created at its place in the enumeration order. The key
  \<open>__proto__\<close> is the exception: unless the object has a property of that name of
  its own, the assignment goes to the accessor of \<open>Object.prototype\<close>, which drops a
  string and takes an array as the new prototype, and either way the object gets no
  property of its own. (What an object inherits from a replaced prototype is not
  modelled.)
\<close>

definition js_set :: "'v js_object \<Rightarrow> string \<Rightarrow> 'v \<Rightarrow> 'v js_object" where
  "js_set obj k v =
     (if js_in k obj then map (\<lambda>(k', v'). if k' = k then (k', v) else (k', v')) obj
      else if k = ''__proto__'' then obj
      else if is_array_index k then insert_index (nat_of_digits k) k v obj
      else obj @ [(k, v)])"

subsection \<open>respond\<close>

text \<open>
  Modelled from the spec: the table \<open>STATUS_TEXTS\<close> of \<open>../api/HTTPRequest.js\<close>, a
  module that is not among the source files. The spec, 4.2: "a fixed table mapping status
  codes to their standard reason phrase"; 8: status 404 has the phrase "Not Found" and
  999 is not in the table. The entries are the usual HTTP status codes with their reason phrases. The
  table's keys are decimal numerals, and indexing it with a number looks up the
  number's decimal form.
\<close>

definition STATUS_TEXTS_table :: "(int \<times> string) list" where
  "STATUS_TEXTS_table =
    [(100, ''Continue''), (101, ''Switching Protocols''), (102, ''Processing''),
     (103, ''Early Hints''),
     (200, ''OK''), (201, ''Created''), (202, ''Accepted''),
     (203, ''Non-Authoritative Information''), (204, ''No Content''),
     (205, ''Reset Content''), (206, ''Partial Content''), (207, ''Multi-Status''),
     (208, ''Already Reported''), (226, ''IM Used''),
     (300, ''Multiple Choices''), (301, ''Moved Permanently''), (302, ''Found''),
     (303, ''See Other''), (304, ''Not Modified''), (305, ''Use Proxy''),
     (306, ''Switch Proxy''), (307, ''Temporary Redirect''), (308, ''Permanent Redirect''),
     (400, ''Bad Request''), (401, ''Unauthorized''), (402, ''Payment Required''),
     (403, ''Forbidden''), (404, ''Not Found''), (405, ''Method Not Allowed''),
     (406, ''Not Acceptable''), (407, ''Proxy Authentication Required''),
     (408, ''Request Timeout''), (409, ''Conflict''), (410, ''Gone''),
     (411, ''Length Required''), (412, ''Precondition Failed''),
     (413, ''Payload Too Large''), (414, ''URI Too Long''),
     (415, ''Unsupported Media Type''), (416, ''Range Not Satisfiable''),
     (417, ''Expectation Failed''), (418, ''I'' @ [CHR 0x27] @ ''m a teapot''),
     (421, ''Misdirected Request''), (422, ''Unprocessable Entity''), (423, ''Locked''),
     (424, ''Failed Dependency''), (425, ''Too Early''), (426, ''Upgrade Required''),
     (428, ''Precondition Required''), (429, ''Too Many Requests''),
     (431, ''Request Header Fields Too Large''), (451, ''Unavailable For Legal Reasons''),
     (500, ''Internal Server Error''), (501, ''Not Implemented''), (502, ''Bad Gateway''),
     (503, ''Service Unavailable''), (504, ''Gateway Timeout''),
     (505, ''HTTP Version Not Supported''), (506, ''Variant Also Negotiates''),
     (507, ''Insufficient Storage''), (508, ''Loop Detected''), (510, ''Not Extended''),
     (511, ''Network Authentication Required'')]"

definition STATUS_TEXTS :: "int \<Rightarrow> string option" where
  "STATUS_TEXTS status = map_of STATUS_TEXTS_table status"

text \<open>The body of a response: \<open>string | Uint8Array\<close>.\<close>

datatype body_value = StringBody string | Uint8ArrayBody "8 word list"

text \<open>
  Modelled from the spec: \<open>HTTPRequest.getResponse\<close> of \<open>../api/HTTPRequest.js\<close>, a
  module that is not among the source files. The spec, 4.2: "derive two values: its byte
  length, and its binary-safe encoded form, using whichever encoding variant matches
  whether the caller supplied text or pre-encoded binary content". The result is the
  pair \<open>(contentLength, base64)\<close>.
\<close>

definition getResponse :: "body_value \<Rightarrow> nat \<times> string" where
  "getResponse b =
     (let byteBody = (case b of StringBody s \<Rightarrow> TextEncoder_encode s | Uint8ArrayBody a \<Rightarrow> a)
      in (length byteBody, typedArrayToBase64 byteBody))"

text \<open>\<open>Partial<ResponseForRequest>\<close>: every field is optional.\<close>

record ResponseForRequest =
  response_status :: "int option"
  response_headers :: "js_value js_object option"
  response_contentType :: "string option"
  response_body :: "body_value option"

text \<open>
  \<open>if (response.body)\<close>: a string is truthy when it is not empty, a \<open>Uint8Array\<close>
  always.
\<close>

definition respond_parsedBody :: "ResponseForRequest \<Rightarrow> (nat \<times> string) option" where
  "respond_parsedBody response =
     (case response_body response of
        None \<Rightarrow> None
      | Some (StringBody s) \<Rightarrow> if s \<noteq> [] then Some (getResponse (StringBody s)) else None
      | Some (Uint8ArrayBody a) \<Rightarrow> Some (getResponse (Uint8ArrayBody a)))"

text \<open>
  The value stored for a header: \<open>Array.isArray(value) ? value.map(item => String(item))
  : String(value)\<close>.
\<close>

definition respond_header_value :: "js_value \<Rightarrow> header_value" where
  "respond_header_value val =
     (case val of
        JArray items \<Rightarrow> Strs (map String items)
      | _ \<Rightarrow> Str (String val))"

text \<open>
  The loop over \<open>Object.keys(response.headers)\<close>, on the properties of the caller's
  object in their enumeration order, each with its value.
\<close>

fun respond_headers_loop ::
  "js_value js_object \<Rightarrow> header_value js_object \<Rightarrow> header_value js_object" where
  "respond_headers_loop [] responseHeaders' = responseHeaders'"
| "respond_headers_loop ((header, val) # rest) responseHeaders' =
     respond_headers_loop rest
       (js_set responseHeaders' (toLowerCase header) (respond_header_value val))"

text \<open>
  The header map \<open>responseHeaders\<close> as \<open>respond\<close> has built it from the caller's
  headers and content type, before it looks at the body. A string is truthy when it is
  not empty.
\<close>

definition respond_builtHeaders :: "ResponseForRequest \<Rightarrow> header_value js_object" where
  "respond_builtHeaders response =
     (let h0 = (case response_headers response of
                  None \<Rightarrow> []
                | Some hs \<Rightarrow> respond_headers_loop hs [])
      in (case response_contentType response of
            None \<Rightarrow> h0
          | Some contentType \<Rightarrow>
              if contentType \<noteq> [] then js_set h0 ''content-type'' (Str contentType)
              else h0))"

text \<open>
  The header map \<open>responseHeaders\<close> that \<open>respond\<close> flattens into the command, after
  \<open>if (parsedBody?.contentLength && !('content-length' in responseHeaders))\<close>. A
  number is truthy when it is not zero.
\<close>

definition respond_responseHeaders :: "ResponseForRequest \<Rightarrow> header_value js_object" where
  "respond_responseHeaders response =
     (let h1 = respond_builtHeaders response
      in (case respond_parsedBody response of
            None \<Rightarrow> h1
          | Some (contentLength, base64) \<Rightarrow>
              if contentLength \<noteq> 0 \<and> \<not> js_in ''content-length'' h1
              then js_set h1 ''content-length'' (Str (String (JNumber (int contentLength))))
              else h1))"

definition respond ::
  "handler \<Rightarrow> FetchRequestPaused \<Rightarrow> ResponseForRequest \<Rightarrow> outcome
     \<Rightarrow> (error + unit) \<times> FetchRequestPaused" where
  "respond handle this response out =
     (if handled this then (Inl (Error ''Request has already been handled''), this)
      else
        let this1 = this\<lparr>handled := True\<rparr>;
            parsedBody = respond_parsedBody response;
            responseHeaders' = respond_responseHeaders response;
            status = (case response_status response of
                        None \<Rightarrow> 200
                      | Some s \<Rightarrow> if s \<noteq> 0 then s else 200);
            cmd = Fetch_fulfillRequest (event_requestId (event this1))
                    status (STATUS_TEXTS status) (headersArray responseHeaders')
                    (map_option snd parsedBody);
            (res, cl) = send (client this1) cmd out;
            this2 = this1\<lparr>client := cl\<rparr>
        in (case res of
              Inr u \<Rightarrow> (Inr (), this2)
            | Inl e \<Rightarrow> (handle e, this2\<lparr>handled := False\<rparr>)))"

subsection \<open>Sequences of calls\<close>

text \<open>
  A caller's resolution attempt is one of the three methods with its argument. A run is
  a sequence of attempts on the same object, each with the outcome of the send it may
  make; it collects the results of the attempts.
\<close>

datatype call =
    Continue ContinueRequestOverrides
  | Abort "ErrorReason option"
  | Respond ResponseForRequest

fun invoke ::
  "handler \<Rightarrow> FetchRequestPaused \<Rightarrow> call \<Rightarrow> outcome \<Rightarrow> (error + unit) \<times> FetchRequestPaused" where
  "invoke handle this (Continue overrides) out = continue handle this overrides out"
| "invoke handle this (Abort reason) out = abort handle this reason out"
| "invoke handle this (Respond response) out = respond handle this response out"

fun run ::
  "handler \<Rightarrow> FetchRequestPaused \<Rightarrow> (call \<times> outcome) list
     \<Rightarrow> (error + unit) list \<times> FetchRequestPaused" where
  "run handle this [] = ([], this)"
| "run handle this ((c, out) # rest) =
     (let (r, this') = invoke handle this c out;
          (rs, this'') = run handle this' rest
      in (r # rs, this''))"

subsection \<open>The header map as the spec describes it\<close>

text \<open>
  The spec, 4.2: the header map has the caller's header names case-folded to lowercase,
  "last write per distinct casing wins, applied in the order the caller provided them",
  and the values stringified. So the entry of a name is given by the last of the
  caller's headers, in the caller's order, whose lowercase name it is; there is none when
  the caller gave no such header.
\<close>

definition spec_header_entry :: "js_value js_object \<Rightarrow> string \<Rightarrow> header_value option" where
  "spec_header_entry hs name =
     (case filter (\<lambda>(header, val). toLowerCase header = name) hs of
        [] \<Rightarrow> None
      | e # es \<Rightarrow> Some (respond_header_value (snd (last (e # es)))))"

subsection \<open>Example values\<close>

definition example_event :: RequestPausedEvent where
  "example_event =
     \<lparr>event_requestId = ''interception-job-1'', event_networkId = Some ''1000.1'',
      event_request = ''GET https://example.test/'', event_frameId = None,
      event_resourceType = ''Document''\<rparr>"

definition example_request :: FetchRequestPaused where
  "example_request = constructor [] example_event"

definition no_overrides :: ContinueRequestOverrides where
  "no_overrides =
     \<lparr>overrides_url = None, overrides_method = None, overrides_postData = None,
      overrides_headers = None\<rparr>"

definition empty_response :: ResponseForRequest where
  "empty_response =
     \<lparr>response_status = None, response_headers = None, response_contentType = None,
      response_body = None\<rparr>"

definition example_response :: ResponseForRequest where
  "example_response =
     \<lparr>response_status = Some 404, response_headers = Some [(''X-Test'', JString ''a'')],
      response_contentType = None, response_body = Some (StringBody ''hello'')\<rparr>"

definition proto_response :: ResponseForRequest where
  "proto_response =
     \<lparr>response_status = None,
      response_headers = Some [(''X-Test'', JString ''a''), (''__proto__'', JString ''x'')],
      response_contentType = None, response_body = None\<rparr>"

definition explicit_length_response :: ResponseForRequest where
  "explicit_length_response =
     \<lparr>response_status = None, response_headers = Some [(''Content-Length'', JNumber 11)],
      response_contentType = None, response_body = Some (StringBody ''hello'')\<rparr>"

definition empty_bytes_response :: ResponseForRequest where
  "empty_bytes_response =
     \<lparr>response_status = None, response_headers = None, response_contentType = None,
      response_body = Some (Uint8ArrayBody [])\<rparr>"

definition conflicting_type_response :: ResponseForRequest where
  "conflicting_type_response =
     \<lparr>response_status = None,
      response_headers = Some [(''Content-Type'', JString ''text/html'')],
      response_contentType = Some ''application/json'', response_body = None\<rparr>"

definition empty_type_response :: ResponseForRequest where
  "empty_type_response =
     \<lparr>response_status = None,
      response_headers = Some [(''Content-Type'', JString ''text/html'')],
      response_contentType = Some [], response_body = None\<rparr>"

section \<open>The one-shot state machine\<close>

text \<open>
  C1. Each of \<open>continue\<close>, \<open>abort\<close> and \<open>respond\<close>, invoked while \<open>handled\<close> is
  already true, fails with the already-handled error; the object it leaves behind is the
  object it found, so no command has been sent through the Session and the
  \<open>handled\<close> flag and every other field are unchanged.
\<close>

theorem already_handled_rejected:
  assumes "handled this"
  shows "continue h this overrides out = (Inl (Error ''Request has already been handled''), this)
       \<and> abort h this reason out = (Inl (Error ''Request has already been handled''), this)
       \<and> respond h this response out = (Inl (Error ''Request has already been handled''), this)"
  using assms by (simp add: continue_def abort_def respond_def)

theorem already_handled_rejected_witness:
  "handled (example_request\<lparr>handled := True\<rparr>)
   \<and> continue (handleError id) (example_request\<lparr>handled := True\<rparr>) no_overrides Resolved
       = (Inl (Error ''Request has already been handled''), example_request\<lparr>handled := True\<rparr>)
   \<and> abort (handleError id) (example_request\<lparr>handled := True\<rparr>) None Resolved
       = (Inl (Error ''Request has already been handled''), example_request\<lparr>handled := True\<rparr>)
   \<and> respond (handleError id) (example_request\<lparr>handled := True\<rparr>) empty_response Resolved
       = (Inl (Error ''Request has already been handled''), example_request\<lparr>handled := True\<rparr>)
   \<and> client (snd (abort (handleError id) (example_request\<lparr>handled := True\<rparr>) None Resolved)) = []"
  using already_handled_rejected
    [of "example_request\<lparr>handled := True\<rparr>" "handleError id" no_overrides Resolved None
        empty_response]
  by (simp add: example_request_def constructor_def)

text \<open>
  C2. When the send of \<open>continue\<close>, \<open>abort\<close> or \<open>respond\<close> is rejected with an error
  \<open>e\<close>, the object is pending again (\<open>handled\<close> is false) once the method has
  completed, and the method ends the way \<open>handleError e\<close> ends, whatever \<open>handleError\<close>
  is. With the \<open>handleError\<close> of the spec, the caller gets the normalized error.
\<close>

theorem failed_send_reverts:
  assumes "\<not> handled this"
  shows "\<not> handled (snd (continue h this overrides (Rejected e)))
       \<and> \<not> handled (snd (abort h this reason (Rejected e)))
       \<and> \<not> handled (snd (respond h this response (Rejected e)))
       \<and> fst (continue h this overrides (Rejected e)) = h e
       \<and> fst (abort h this reason (Rejected e)) = h e
       \<and> fst (respond h this response (Rejected e)) = h e
       \<and> fst (continue (handleError normalise) this overrides (Rejected e)) = Inl (normalise e)
       \<and> fst (abort (handleError normalise) this reason (Rejected e)) = Inl (normalise e)
       \<and> fst (respond (handleError normalise) this response (Rejected e)) = Inl (normalise e)"
  using assms by (simp add: continue_def abort_def respond_def send_def handleError_def Let_def)

theorem failed_send_reverts_witness:
  "\<not> handled example_request
   \<and> \<not> handled (snd (continue (handleError id) example_request no_overrides
                      (Rejected (ProtocolError ''Session closed''))))
   \<and> \<not> handled (snd (abort (handleError id) example_request None
                      (Rejected (ProtocolError ''Session closed''))))
   \<and> \<not> handled (snd (respond (handleError id) example_request empty_response
                      (Rejected (ProtocolError ''Session closed''))))
   \<and> fst (continue (handleError id) example_request no_overrides
            (Rejected (ProtocolError ''Session closed''))) = Inl (ProtocolError ''Session closed'')
   \<and> fst (abort (handleError id) example_request None
            (Rejected (ProtocolError ''Session closed''))) = Inl (ProtocolError ''Session closed'')
   \<and> fst (respond (handleError id) example_request empty_response
            (Rejected (ProtocolError ''Session closed''))) = Inl (ProtocolError ''Session closed'')"
proof -
  have pending: "\<not> handled example_request"
    by (simp add: example_request_def constructor_def)
  show ?thesis
    using pending
      failed_send_reverts [OF pending, of "handleError id" no_overrides
        "ProtocolError ''Session closed''" None empty_response id]
    by (simp add: handleError_def)
qed

text \<open>A handled object answers every sequence of attempts with the already-handled error.\<close>

lemma run_handled:
  "handled this \<Longrightarrow>
   run h this cs = (replicate (length cs) (Inl (Error ''Request has already been handled'')), this)"
proof (induction cs)
  case Nil
  show ?case by simp
next
  case (Cons a cs)
  obtain c out where a: "a = (c, out)" by (cases a)
  from Cons.prems have "invoke h this c out = (Inl (Error ''Request has already been handled''), this)"
    by (cases c) (simp_all add: continue_def abort_def respond_def)
  with Cons a show ?case by simp
qed

lemma invoke_resolved:
  "\<not> handled this \<Longrightarrow>
   fst (invoke h this c Resolved) = Inr () \<and> handled (snd (invoke h this c Resolved))"
  by (cases c) (simp_all add: continue_def abort_def respond_def send_def Let_def)

lemma invoke_unhandled_after:
  "\<not> handled (snd (invoke h this c out)) \<Longrightarrow> \<not> handled this \<and> out \<noteq> Resolved"
  by (cases c; cases out)
     (auto simp add: continue_def abort_def respond_def send_def Let_def split: if_splits)

text \<open>
  C3. After an attempt whose send succeeds, \<open>handled\<close> is true and stays true: every
  later sequence of attempts on the object, whatever the attempts and whatever the Session
  would have answered, yields the already-handled error each time and leaves the object
  as it was after the success. An attempt leaves \<open>handled\<close> false only if it found it
  false and its send was rejected.
\<close>

theorem resolved_is_permanent:
  assumes "\<not> handled this"
  shows "fst (invoke h this c Resolved) = Inr ()
       \<and> handled (snd (invoke h this c Resolved))
       \<and> run h (snd (invoke h this c Resolved)) cs
           = (replicate (length cs) (Inl (Error ''Request has already been handled'')),
              snd (invoke h this c Resolved))
       \<and> (\<forall>this' c' out'. \<not> handled (snd (invoke h this' c' out'))
              \<longrightarrow> \<not> handled this' \<and> (\<exists>e. out' = Rejected e))"
proof -
  have "\<exists>e. out' = Rejected e" if "out' \<noteq> Resolved" for out'
    using that by (cases out') simp_all
  then have "\<forall>this' c' out'. \<not> handled (snd (invoke h this' c' out'))
              \<longrightarrow> \<not> handled this' \<and> (\<exists>e. out' = Rejected e)"
    using invoke_unhandled_after by blast
  with invoke_resolved [OF assms] run_handled show ?thesis
    by simp
qed

theorem resolved_is_permanent_witness:
  "\<not> handled example_request
   \<and> handled (snd (invoke (handleError id) example_request (Abort None) Resolved))
   \<and> run (handleError id) (snd (invoke (handleError id) example_request (Abort None) Resolved))
         [(Continue no_overrides, Resolved), (Respond empty_response, Rejected (Error ''x'')),
          (Abort (Some TimedOut), Resolved)]
       = ([Inl (Error ''Request has already been handled''),
           Inl (Error ''Request has already been handled''),
           Inl (Error ''Request has already been handled'')],
          snd (invoke (handleError id) example_request (Abort None) Resolved))"
proof -
  have pending: "\<not> handled example_request"
    by (simp add: example_request_def constructor_def)
  show ?thesis
    using pending
      resolved_is_permanent [OF pending, of "handleError id" "Abort None"
        "[(Continue no_overrides, Resolved), (Respond empty_response, Rejected (Error ''x'')),
          (Abort (Some TimedOut), Resolved)]"]
    by (simp add: numeral_3_eq_3)
qed

section \<open>The commands\<close>

text \<open>
  C9. \<open>abort\<close> on a pending request sends \<open>Fetch.failRequest\<close> with the reason
  \<open>Failed\<close> when the caller gives no reason (the \<open>null\<close> default), and with the
  caller's reason when one is given; whatever the Session answers.
\<close>

theorem abort_errorReason:
  assumes "\<not> handled this"
  shows "client (snd (abort h this None out))
           = client this @ [Fetch_failRequest (event_requestId (event this)) Failed]
       \<and> client (snd (abort h this (Some reason) out))
           = client this @ [Fetch_failRequest (event_requestId (event this)) reason]"
  using assms by (cases out) (simp_all add: abort_def send_def Let_def)

theorem abort_errorReason_witness:
  "\<not> handled example_request
   \<and> client (snd (abort (handleError id) example_request None Resolved))
       = [Fetch_failRequest ''interception-job-1'' Failed]
   \<and> client (snd (abort (handleError id) example_request (Some BlockedByClient) Resolved))
       = [Fetch_failRequest ''interception-job-1'' BlockedByClient]"
proof -
  have pending: "\<not> handled example_request"
    by (simp add: example_request_def constructor_def)
  show ?thesis
    using pending abort_errorReason [OF pending, of "handleError id" Resolved BlockedByClient]
    by (simp add: example_request_def constructor_def example_event_def)
qed

section \<open>Objects as ordered lists of properties\<close>

text \<open>
  Setting a property other than \<open>__proto__\<close> changes the object as a finite map does,
  whatever the place of the property in the enumeration order; setting any property
  leaves the others alone and keeps the keys distinct.
\<close>

lemma map_of_update_in_place:
  "map_of (map (\<lambda>(k', v'). if k' = k then (k', v) else (k', v')) obj) x =
     (if x = k \<and> map_of obj k \<noteq> None then Some v else map_of obj x)"
  by (induction obj) auto

lemma set_insert_index: "set (insert_index n k v obj) = insert (k, v) (set obj)"
  by (induction obj) (auto split: if_splits)

lemma map_of_insert_index:
  "map_of obj k = None \<Longrightarrow> map_of (insert_index n k v obj) x = (if x = k then Some v else map_of obj x)"
  by (induction obj) (auto split: if_splits)

lemma map_of_snoc:
  "map_of obj k = None \<Longrightarrow> map_of (obj @ [(k, v)]) x = (if x = k then Some v else map_of obj x)"
  by (induction obj) (auto split: if_splits)

lemma js_in_map_of: "js_in k obj = (map_of obj k \<noteq> None)"
  by (simp add: js_in_def map_of_eq_None_iff)

lemma map_of_js_set_other: "x \<noteq> k \<Longrightarrow> map_of (js_set obj k v) x = map_of obj x"
  unfolding js_set_def js_in_map_of
  by (simp add: map_of_update_in_place map_of_insert_index map_of_snoc del: map_of_append)

lemma map_of_js_set_same: "k \<noteq> ''__proto__'' \<Longrightarrow> map_of (js_set obj k v) k = Some v"
  unfolding js_set_def js_in_map_of
  by (simp add: map_of_update_in_place map_of_insert_index map_of_snoc del: map_of_append)

lemma map_of_js_set: "k \<noteq> ''__proto__'' \<Longrightarrow> map_of (js_set obj k v) = (map_of obj)(k \<mapsto> v)"
proof
  fix x
  assume "k \<noteq> ''__proto__''"
  then show "map_of (js_set obj k v) x = ((map_of obj)(k \<mapsto> v)) x"
    by (cases "x = k") (simp_all add: map_of_js_set_other map_of_js_set_same)
qed

lemma js_set_proto: "\<not> js_in ''__proto__'' obj \<Longrightarrow> js_set obj ''__proto__'' v = obj"
  by (simp add: js_set_def)

lemma js_in_js_set:
  "k \<noteq> ''__proto__'' \<Longrightarrow> js_in x (js_set obj k v) = (x = k \<or> js_in x obj)"
  by (simp add: js_in_map_of map_of_js_set)

lemma keys_update_in_place:
  "map fst (map (\<lambda>(k', v'). if k' = k then (k', v) else (k', v')) obj) = map fst obj"
  by (induction obj) auto

lemma distinct_insert_index:
  "map_of obj k = None \<Longrightarrow> distinct (map fst obj) \<Longrightarrow> distinct (map fst (insert_index n k v obj))"
proof (induction obj)
  case Nil
  show ?case by simp
next
  case (Cons p obj)
  obtain k' v' where p: "p = (k', v')" by (cases p)
  from Cons.prems p have k': "k' \<noteq> k" "map_of obj k = None" "k' \<notin> fst ` set obj" "distinct (map fst obj)"
    by (auto split: if_splits)
  with Cons.IH have "distinct (map fst (insert_index n k v obj))" by simp
  moreover have "k' \<notin> fst ` set (insert_index n k v obj)"
    using k' by (simp add: set_insert_index)
  moreover have "k \<notin> fst ` set obj"
    using k' by (simp add: map_of_eq_None_iff)
  ultimately show ?case using k' p by simp
qed

lemma distinct_js_set:
  "distinct (map fst obj) \<Longrightarrow> distinct (map fst (js_set obj k v))"
proof (cases "map_of obj k = None")
  case False
  assume "distinct (map fst obj)"
  moreover from False
  have "js_set obj k v = map (\<lambda>(k', v'). if k' = k then (k', v) else (k', v')) obj"
    unfolding js_set_def js_in_map_of by simp
  ultimately show ?thesis
    by (simp only: keys_update_in_place)
next
  case True
  assume d: "distinct (map fst obj)"
  from True have "k \<notin> fst ` set obj" by (simp add: map_of_eq_None_iff)
  with True d show ?thesis
    unfolding js_set_def js_in_map_of by (simp add: distinct_insert_index)
qed

lemma js_in_Nil: "js_in k [] = False"
  by (simp add: js_in_def)

text \<open>
  The loop of \<open>respond\<close>: for every name but \<open>__proto__\<close> the entry is the one the
  spec describes, on top of what the map held before. A header whose lowercase name is
  \<open>__proto__\<close> leaves no entry.
\<close>

lemma loop_entry:
  "name \<noteq> ''__proto__'' \<Longrightarrow>
   map_of (respond_headers_loop hs acc) name =
     (case spec_header_entry hs name of None \<Rightarrow> map_of acc name | Some v \<Rightarrow> Some v)"
proof (induction hs arbitrary: acc)
  case Nil
  show ?case by (simp add: spec_header_entry_def)
next
  case (Cons p hs)
  obtain header val where p: "p = (header, val)" by (cases p)
  show ?case
  proof (cases "toLowerCase header = name")
    case True
    with Cons.prems show ?thesis
      unfolding p
      by (simp add: Cons.IH [OF Cons.prems] map_of_js_set_same spec_header_entry_def
          split: list.splits)
  next
    case False
    then have "name \<noteq> toLowerCase header" by blast
    with False show ?thesis
      unfolding p
      by (simp add: Cons.IH [OF Cons.prems] map_of_js_set_other spec_header_entry_def
          split: list.splits)
  qed
qed

lemma spec_header_entry_None: "(spec_header_entry hs name = None) = (name \<notin> toLowerCase ` fst ` set hs)"
proof -
  have "(filter (\<lambda>(header, val). toLowerCase header = name) hs = []) = (name \<notin> toLowerCase ` fst ` set hs)"
    by (force simp add: filter_empty_conv)
  then show ?thesis
    by (cases "filter (\<lambda>(header, val). toLowerCase header = name) hs")
       (simp_all add: spec_header_entry_def)
qed

lemma loop_keys:
  "k \<noteq> ''__proto__'' \<Longrightarrow>
   js_in k (respond_headers_loop hs acc) = (js_in k acc \<or> k \<in> toLowerCase ` fst ` set hs)"
  using spec_header_entry_None [of hs k]
  by (cases "spec_header_entry hs k") (simp_all add: js_in_map_of loop_entry)

lemma loop_distinct:
  "distinct (map fst acc) \<Longrightarrow> distinct (map fst (respond_headers_loop hs acc))"
proof (induction hs arbitrary: acc)
  case Nil
  then show ?case by simp
next
  case (Cons p hs)
  obtain header val where p: "p = (header, val)" by (cases p)
  from Cons.prems show ?case
    unfolding p by (simp add: Cons.IH distinct_js_set del: distinct_map)
qed

lemma loop_proto:
  "\<not> js_in ''__proto__'' acc \<Longrightarrow> \<not> js_in ''__proto__'' (respond_headers_loop hs acc)"
proof (induction hs arbitrary: acc)
  case Nil
  then show ?case by simp
next
  case (Cons p hs)
  obtain header val where p: "p = (header, val)" by (cases p)
  from Cons.prems
  have "\<not> js_in ''__proto__'' (js_set acc (toLowerCase header) (respond_header_value val))"
    by (cases "toLowerCase header = ''__proto__''") (simp_all add: js_set_proto js_in_js_set)
  then show ?case
    unfolding p by (simp add: Cons.IH)
qed

lemma builtHeaders_proto: "\<not> js_in ''__proto__'' (respond_builtHeaders response)"
  by (simp add: respond_builtHeaders_def loop_proto js_in_Nil js_in_js_set Let_def
      split: option.splits)

lemma builtHeaders_distinct: "distinct (map fst (respond_builtHeaders response))"
  by (simp add: respond_builtHeaders_def loop_distinct distinct_js_set Let_def
      split: option.splits del: distinct_map)

lemma responseHeaders_distinct: "distinct (map fst (respond_responseHeaders response))"
  by (simp add: respond_responseHeaders_def builtHeaders_distinct distinct_js_set Let_def
      split: option.splits del: distinct_map)

lemma headersArray_absent:
  "map_of obj k = None \<Longrightarrow> k \<notin> fst ` set (headersArray obj)"
proof (induction obj rule: headersArray.induct)
  case 1
  then show ?case by simp
next
  case (2 name v' rest)
  then show ?case by (auto split: if_splits)
next
  case (3 name vs rest)
  then show ?case by (auto split: if_splits)
qed

lemma headersArray_only:
  "distinct (map fst obj) \<Longrightarrow> map_of obj k = Some (Str v) \<Longrightarrow>
   filter (\<lambda>(n, x). n = k) (headersArray obj) = [(k, v)]"
proof (induction obj rule: headersArray.induct)
  case 1
  then show ?case by simp
next
  case (2 name v' rest)
  show ?case
  proof (cases "name = k")
    case True
    with 2 have "map_of rest k = None" by (simp add: map_of_eq_None_iff)
    then have "k \<notin> fst ` set (headersArray rest)" by (rule headersArray_absent)
    then have "filter (\<lambda>(n, x). n = k) (headersArray rest) = []"
      by (force simp add: filter_empty_conv)
    with True 2 show ?thesis by simp
  next
    case False
    with 2 show ?thesis by simp
  qed
next
  case (3 name vs rest)
  then have "name \<noteq> k" by auto
  with 3 show ?case by (simp add: filter_empty_conv)
qed

lemma respond_command:
  "\<not> handled this \<Longrightarrow>
   client (snd (respond h this response out)) =
     client this @
     [Fetch_fulfillRequest (event_requestId (event this))
        (case response_status response of None \<Rightarrow> 200 | Some s \<Rightarrow> if s \<noteq> 0 then s else 200)
        (STATUS_TEXTS (case response_status response of None \<Rightarrow> 200 | Some s \<Rightarrow> if s \<noteq> 0 then s else 200))
        (headersArray (respond_responseHeaders response))
        (map_option snd (respond_parsedBody response))]"
  by (cases out) (simp_all add: respond_def send_def Let_def)

section \<open>The header map of a response\<close>

text \<open>
  C5. The claim holds of the spec's header map and fails on the code for a header named
  \<open>__proto__\<close> (in any casing). For the caller's headers \<open>X-Test: a\<close> and
  \<open>__proto__: x\<close>, the spec's map has the entry \<open>__proto__\<close> with the value \<open>x\<close>, the
  last write of that name. The map \<open>respond\<close> builds has the entry \<open>x-test\<close> and no
  entry \<open>__proto__\<close>: the assignment \<open>responseHeaders['__proto__'] = 'x'\<close> creates no
  property, and the command is sent without the header.
\<close>

theorem proto_header_dropped:
  "response_headers proto_response = Some [(''X-Test'', JString ''a''), (''__proto__'', JString ''x'')]
   \<and> spec_header_entry [(''X-Test'', JString ''a''), (''__proto__'', JString ''x'')] ''x-test''
       = Some (Str ''a'')
   \<and> spec_header_entry [(''X-Test'', JString ''a''), (''__proto__'', JString ''x'')] ''__proto__''
       = Some (Str ''x'')
   \<and> map_of (respond_builtHeaders proto_response) ''x-test'' = Some (Str ''a'')
   \<and> map_of (respond_builtHeaders proto_response) ''__proto__'' = None
   \<and> respond_builtHeaders proto_response = [(''x-test'', Str ''a'')]
   \<and> respond (handleError id) example_request proto_response Resolved
       = (Inr (),
          example_request
            \<lparr>client := [Fetch_fulfillRequest ''interception-job-1'' 200 (Some ''OK'')
                          [(''x-test'', ''a'')] None],
             handled := True\<rparr>)"
  by code_simp

text \<open>
  C4 (amended). When \<open>respond\<close> has derived a body of non-zero byte length and the
  header map built from the caller's headers and content type has no \<open>content-length\<close>
  entry, the finished map has the entry \<open>content-length\<close> with the decimal byte length,
  and the flattened header list has exactly that one pair of the name. When the derived
  body has zero bytes, or when the built map has a \<open>content-length\<close> entry, the
  finished map is the built map: nothing is injected and nothing overwritten; and a
  caller's header whose lowercase name is \<open>content-length\<close> puts its own (last,
  stringified) value there. The flattened finished map is what the command carries.
\<close>

theorem content_length_fallback:
  "(respond_parsedBody response = Some (contentLength, encoded) \<and> contentLength \<noteq> 0
      \<and> \<not> js_in ''content-length'' (respond_builtHeaders response)
    \<longrightarrow> map_of (respond_responseHeaders response) ''content-length''
          = Some (Str (Number_toString (int contentLength)))
        \<and> filter (\<lambda>(n, x). n = ''content-length'') (headersArray (respond_responseHeaders response))
          = [(''content-length'', Number_toString (int contentLength))])
   \<and> (respond_parsedBody response = Some (0, encoded')
    \<longrightarrow> respond_responseHeaders response = respond_builtHeaders response)
   \<and> (js_in ''content-length'' (respond_builtHeaders response)
    \<longrightarrow> respond_responseHeaders response = respond_builtHeaders response)
   \<and> (response_headers response = Some hs \<and> name \<in> fst ` set hs
      \<and> toLowerCase name = ''content-length''
    \<longrightarrow> js_in ''content-length'' (respond_builtHeaders response)
        \<and> map_of (respond_responseHeaders response) ''content-length''
          = spec_header_entry hs ''content-length'')
   \<and> (\<not> handled this
    \<longrightarrow> responseHeaders (last (client (snd (respond h this response out))))
          = headersArray (respond_responseHeaders response))"
proof -
  have inject: "map_of (respond_responseHeaders response) ''content-length''
          = Some (Str (Number_toString (int contentLength)))
        \<and> filter (\<lambda>(n, x). n = ''content-length'') (headersArray (respond_responseHeaders response))
          = [(''content-length'', Number_toString (int contentLength))]"
    if "respond_parsedBody response = Some (contentLength, encoded)" "contentLength \<noteq> 0"
       "\<not> js_in ''content-length'' (respond_builtHeaders response)"
  proof -
    from that have "map_of (respond_responseHeaders response) ''content-length''
          = Some (Str (Number_toString (int contentLength)))"
      by (simp add: respond_responseHeaders_def map_of_js_set)
    with headersArray_only [OF responseHeaders_distinct this] show ?thesis by simp
  qed
  have zero: "respond_responseHeaders response = respond_builtHeaders response"
    if "respond_parsedBody response = Some (0, encoded')"
    using that by (simp add: respond_responseHeaders_def)
  have keep: "respond_responseHeaders response = respond_builtHeaders response"
    if "js_in ''content-length'' (respond_builtHeaders response)"
    using that by (simp add: respond_responseHeaders_def Let_def split: option.splits prod.splits)
  have caller: "js_in ''content-length'' (respond_builtHeaders response)
        \<and> map_of (respond_responseHeaders response) ''content-length''
          = spec_header_entry hs ''content-length''"
    if hs: "response_headers response = Some hs" and n: "name \<in> fst ` set hs"
      and l: "toLowerCase name = ''content-length''"
  proof -
    from n l have "''content-length'' \<in> toLowerCase ` fst ` set hs" by force
    then have "js_in ''content-length'' (respond_headers_loop hs [])"
      by (simp add: loop_keys)
    with hs have b: "js_in ''content-length'' (respond_builtHeaders response)"
      by (simp add: respond_builtHeaders_def js_in_js_set Let_def split: option.splits)
    have "map_of (respond_builtHeaders response) ''content-length''
            = map_of (respond_headers_loop hs []) ''content-length''"
      using hs by (simp add: respond_builtHeaders_def map_of_js_set Let_def split: option.splits)
    with b keep [OF b] show ?thesis
      by (simp add: loop_entry split: option.splits)
  qed
  have sent: "responseHeaders (last (client (snd (respond h this response out))))
          = headersArray (respond_responseHeaders response)" if "\<not> handled this"
    using that by (simp add: respond_command)
  from inject zero keep caller sent show ?thesis by blast
qed

theorem content_length_fallback_witness:
  "respond_parsedBody example_response = Some (5, ''aGVsbG8='')
   \<and> \<not> js_in ''content-length'' (respond_builtHeaders example_response)
   \<and> map_of (respond_responseHeaders example_response) ''content-length'' = Some (Str ''5'')
   \<and> filter (\<lambda>(n, x). n = ''content-length'') (headersArray (respond_responseHeaders example_response))
       = [(''content-length'', ''5'')]
   \<and> respond_parsedBody (example_response\<lparr>response_body := Some (Uint8ArrayBody [])\<rparr>) = Some (0, [])
   \<and> respond_responseHeaders (example_response\<lparr>response_body := Some (Uint8ArrayBody [])\<rparr>)
       = [(''x-test'', Str ''a'')]
   \<and> js_in ''content-length'' (respond_builtHeaders explicit_length_response)
   \<and> map_of (respond_responseHeaders explicit_length_response) ''content-length'' = Some (Str ''11'')
   \<and> responseHeaders (last (client (snd (respond (handleError id) example_request
         explicit_length_response Resolved)))) = [(''content-length'', ''11'')]"
proof -
  have body: "respond_parsedBody example_response = Some (5, ''aGVsbG8='')"
    by code_simp
  have absent: "\<not> js_in ''content-length'' (respond_builtHeaders example_response)"
    by code_simp
  have five: "Number_toString (int 5) = ''5''"
    by code_simp
  have nobytes: "respond_parsedBody (example_response\<lparr>response_body := Some (Uint8ArrayBody [])\<rparr>)
      = Some (0, [])"
    by code_simp
  have built: "respond_builtHeaders (example_response\<lparr>response_body := Some (Uint8ArrayBody [])\<rparr>)
      = [(''x-test'', Str ''a'')]"
    by code_simp
  have hs: "response_headers explicit_length_response = Some [(''Content-Length'', JNumber 11)]"
    by (simp add: explicit_length_response_def)
  have lower: "toLowerCase ''Content-Length'' = ''content-length''"
    by code_simp
  have entry: "spec_header_entry [(''Content-Length'', JNumber 11)] ''content-length'' = Some (Str ''11'')"
    by code_simp
  have pending: "\<not> handled example_request"
    by (simp add: example_request_def constructor_def)
  have flat: "headersArray (respond_responseHeaders explicit_length_response) = [(''content-length'', ''11'')]"
    by code_simp
  have member: "''Content-Length'' \<in> fst ` set [(''Content-Length'', JNumber 11 :: js_value)]"
    by simp
  from content_length_fallback [where response = example_response and contentLength = 5
      and encoded = "''aGVsbG8=''"] body absent five
  have injected: "map_of (respond_responseHeaders example_response) ''content-length'' = Some (Str ''5'')
      \<and> filter (\<lambda>(n, x). n = ''content-length'') (headersArray (respond_responseHeaders example_response))
        = [(''content-length'', ''5'')]"
    by simp
  from content_length_fallback
      [where response = "example_response\<lparr>response_body := Some (Uint8ArrayBody [])\<rparr>"
        and encoded' = "[]"] nobytes built
  have none: "respond_responseHeaders (example_response\<lparr>response_body := Some (Uint8ArrayBody [])\<rparr>)
      = [(''x-test'', Str ''a'')]"
    by simp
  from content_length_fallback [where response = explicit_length_response
      and contentLength = 0 and encoded = "[]" and encoded' = "[]"
      and hs = "[(''Content-Length'', JNumber 11)]" and name = "''Content-Length''"
      and this = example_request and h = "handleError id" and out = Resolved]
    hs lower member entry pending
  have kept: "js_in ''content-length'' (respond_builtHeaders explicit_length_response)
      \<and> map_of (respond_responseHeaders explicit_length_response) ''content-length'' = Some (Str ''11'')
      \<and> responseHeaders (last (client (snd (respond (handleError id) example_request
            explicit_length_response Resolved))))
        = headersArray (respond_responseHeaders explicit_length_response)"
    by auto
  from body absent injected nobytes none kept flat show ?thesis
    by simp
qed

text \<open>
  C4 as stated fails for a body of zero bytes, an empty \<open>Uint8Array\<close>: the body is
  derived (and sent, empty), no \<open>content-length\<close> entry exists, and none is injected,
  since the byte length \<open>0\<close> is falsy.
\<close>

theorem content_length_zero_counterexample:
  "respond_parsedBody empty_bytes_response = Some (0, [])
   \<and> \<not> js_in ''content-length'' (respond_builtHeaders empty_bytes_response)
   \<and> \<not> js_in ''content-length'' (respond_responseHeaders empty_bytes_response)
   \<and> client (snd (respond (handleError id) example_request empty_bytes_response Resolved))
       = [Fetch_fulfillRequest ''interception-job-1'' 200 (Some ''OK'') [] (Some [])]"
  by code_simp

text \<open>
  C8 (amended). When the caller gives a content type that is not the empty string, the
  header map \<open>respond\<close> builds has it as its \<open>content-type\<close> entry, whatever the
  caller's headers say; the finished map keeps it, the flattened header list has exactly
  that one pair of the name, and the command carries the flattened list.
\<close>

theorem contentType_overrides:
  assumes "response_contentType response = Some contentType" and "contentType \<noteq> []"
  shows "map_of (respond_builtHeaders response) ''content-type'' = Some (Str contentType)
       \<and> map_of (respond_responseHeaders response) ''content-type'' = Some (Str contentType)
       \<and> filter (\<lambda>(n, x). n = ''content-type'') (headersArray (respond_responseHeaders response))
           = [(''content-type'', contentType)]
       \<and> (\<not> handled this
          \<longrightarrow> responseHeaders (last (client (snd (respond h this response out))))
              = headersArray (respond_responseHeaders response))"
proof -
  from assms have built: "map_of (respond_builtHeaders response) ''content-type'' = Some (Str contentType)"
    by (simp add: respond_builtHeaders_def map_of_js_set Let_def)
  then have final: "map_of (respond_responseHeaders response) ''content-type'' = Some (Str contentType)"
    by (simp add: respond_responseHeaders_def map_of_js_set Let_def split: option.splits prod.splits)
  from headersArray_only [OF responseHeaders_distinct final] built final show ?thesis
    by (simp add: respond_command)
qed

theorem contentType_overrides_witness:
  "response_contentType conflicting_type_response = Some ''application/json''
   \<and> map_of (respond_builtHeaders conflicting_type_response) ''content-type''
       = Some (Str ''application/json'')
   \<and> responseHeaders (last (client (snd (respond (handleError id) example_request
         conflicting_type_response Resolved))))
       = [(''content-type'', ''application/json'')]"
proof -
  have ct: "response_contentType conflicting_type_response = Some ''application/json''"
    by (simp add: conflicting_type_response_def)
  have pending: "\<not> handled example_request"
    by (simp add: example_request_def constructor_def)
  have flat: "headersArray (respond_responseHeaders conflicting_type_response)
      = [(''content-type'', ''application/json'')]"
    by code_simp
  from contentType_overrides [OF ct, of example_request "handleError id" Resolved] ct pending flat
  show ?thesis by simp
qed

text \<open>
  C8 as stated fails for the empty string as content type: it is falsy, and the
  \<open>content-type\<close> entry that came from the caller's headers stays.
\<close>

theorem contentType_empty_counterexample:
  "response_contentType empty_type_response = Some []
   \<and> map_of (respond_builtHeaders empty_type_response) ''content-type'' = Some (Str ''text/html'')
   \<and> responseHeaders (last (client (snd (respond (handleError id) example_request
         empty_type_response Resolved))))
       = [(''content-type'', ''text/html'')]"
  by code_simp

text \<open>
  C10. \<open>respond\<close> with the empty string as body does what it does with no body: the
  result and the object left behind are the same, no body is derived, the finished header
  map is the map built from the caller's headers and content type alone (no
  \<open>content-length\<close> is injected), and the command has no body.
\<close>

theorem empty_string_body_is_no_body:
  "respond h this (response\<lparr>response_body := Some (StringBody [])\<rparr>) out
     = respond h this (response\<lparr>response_body := None\<rparr>) out
   \<and> respond_parsedBody (response\<lparr>response_body := Some (StringBody [])\<rparr>) = None
   \<and> respond_responseHeaders (response\<lparr>response_body := Some (StringBody [])\<rparr>)
     = respond_builtHeaders response
   \<and> (\<not> handled this
      \<longrightarrow> body (last (client (snd (respond h this (response\<lparr>response_body := Some (StringBody [])\<rparr>) out))))
          = None)"
proof -
  have parsed: "respond_parsedBody (response\<lparr>response_body := Some (StringBody [])\<rparr>) = None"
    "respond_parsedBody (response\<lparr>response_body := None\<rparr>) = None"
    by (simp_all add: respond_parsedBody_def)
  have built: "respond_builtHeaders (response\<lparr>response_body := b\<rparr>) = respond_builtHeaders response" for b
    by (simp add: respond_builtHeaders_def)
  have final: "respond_responseHeaders (response\<lparr>response_body := Some (StringBody [])\<rparr>)
      = respond_builtHeaders response"
    "respond_responseHeaders (response\<lparr>response_body := None\<rparr>) = respond_builtHeaders response"
    by (simp_all add: respond_responseHeaders_def parsed built)
  have same: "respond h this (response\<lparr>response_body := Some (StringBody [])\<rparr>) out
     = respond h this (response\<lparr>response_body := None\<rparr>) out"
    by (simp add: respond_def parsed final)
  from parsed final same show ?thesis
    by (simp add: respond_command)
qed

theorem empty_string_body_is_no_body_witness:
  "\<not> handled example_request
   \<and> respond (handleError id) example_request (example_response\<lparr>response_body := Some (StringBody [])\<rparr>) Resolved
     = respond (handleError id) example_request (example_response\<lparr>response_body := None\<rparr>) Resolved
   \<and> client (snd (respond (handleError id) example_request
        (example_response\<lparr>response_body := Some (StringBody [])\<rparr>) Resolved))
     = [Fetch_fulfillRequest ''interception-job-1'' 404 (Some ''Not Found'') [(''x-test'', ''a'')] None]"
proof -
  have pending: "\<not> handled example_request"
    by (simp add: example_request_def constructor_def)
  have sent: "client (snd (respond (handleError id) example_request
        (example_response\<lparr>response_body := None\<rparr>) Resolved))
     = [Fetch_fulfillRequest ''interception-job-1'' 404 (Some ''Not Found'') [(''x-test'', ''a'')] None]"
    by code_simp
  from empty_string_body_is_no_body [of "handleError id" example_request example_response Resolved]
    pending sent
  show ?thesis by simp
qed

section \<open>The commands of continue and respond\<close>

lemma typedArrayToBase64_nonempty: "bytes \<noteq> [] \<Longrightarrow> typedArrayToBase64 bytes \<noteq> []"
  by (cases bytes rule: typedArrayToBase64.cases) simp_all

lemma stringToBase64_nonempty: "str \<noteq> [] \<Longrightarrow> stringToBase64 str \<noteq> []"
  by (simp add: stringToBase64_def TextEncoder_encode_def typedArrayToBase64_nonempty)

lemma continue_command:
  "\<not> handled this \<Longrightarrow>
   client (snd (continue h this overrides out)) =
     client this @
     [Fetch_continueRequest (event_requestId (event this))
        (overrides_url overrides) (overrides_method overrides)
        (case overrides_postData overrides of
           None \<Rightarrow> None
         | Some postData' \<Rightarrow> if postData' \<noteq> [] then Some (stringToBase64 postData') else None)
        (case overrides_headers overrides of
           None \<Rightarrow> None
         | Some hs \<Rightarrow> Some (headersArray (map (\<lambda>(n, v). (n, Str v)) hs)))]"
  by (cases out) (simp_all add: continue_def send_def Let_def)

text \<open>
  C6 (amended). \<open>continue\<close> on a pending request with no override sends a command
  whose \<open>url\<close>, \<open>method\<close>, \<open>postData\<close> and \<open>headers\<close> are absent; \<open>postData\<close> is
  absent whenever no body override is given, and \<open>headers\<close> whenever no header
  override is given. With a body override that is not the empty string, the command's
  \<open>postData\<close> is the Base64 encoding of the body, which is not empty.
\<close>

theorem continue_fields:
  assumes "\<not> handled this"
  shows "client (snd (continue h this no_overrides out))
           = client this @ [Fetch_continueRequest (event_requestId (event this)) None None None None]
       \<and> (overrides_postData overrides = None
          \<longrightarrow> postData (last (client (snd (continue h this overrides out)))) = None)
       \<and> (overrides_headers overrides = None
          \<longrightarrow> headers (last (client (snd (continue h this overrides out)))) = None)
       \<and> (overrides_postData overrides = Some postData' \<and> postData' \<noteq> []
          \<longrightarrow> postData (last (client (snd (continue h this overrides out))))
                = Some (stringToBase64 postData')
              \<and> stringToBase64 postData' \<noteq> [])"
  using assms
  by (simp add: continue_command no_overrides_def stringToBase64_nonempty)

theorem continue_fields_witness:
  "\<not> handled example_request
   \<and> client (snd (continue (handleError id) example_request no_overrides Resolved))
       = [Fetch_continueRequest ''interception-job-1'' None None None None]
   \<and> postData (last (client (snd (continue (handleError id) example_request
         (no_overrides\<lparr>overrides_postData := Some ''hello''\<rparr>) Resolved))))
       = Some ''aGVsbG8=''"
proof -
  have pending: "\<not> handled example_request"
    by (simp add: example_request_def constructor_def)
  have enc: "stringToBase64 ''hello'' = ''aGVsbG8=''"
    by code_simp
  have rid: "event_requestId (event example_request) = ''interception-job-1''"
    by (simp add: example_request_def constructor_def example_event_def)
  have none: "client example_request = []"
    by (simp add: example_request_def constructor_def)
  from continue_fields [OF pending, of "handleError id" Resolved
      "no_overrides\<lparr>overrides_postData := Some ''hello''\<rparr>" "''hello''"] pending enc rid none
  show ?thesis by simp
qed

text \<open>
  C6 as stated fails for the empty string as body override: it is falsy, and the
  command has no \<open>postData\<close>.
\<close>

theorem continue_empty_postData_counterexample:
  "overrides_postData (no_overrides\<lparr>overrides_postData := Some []\<rparr>) = Some []
   \<and> client (snd (continue (handleError id) example_request
         (no_overrides\<lparr>overrides_postData := Some []\<rparr>) Resolved))
       = [Fetch_continueRequest ''interception-job-1'' None None None None]"
  by code_simp

text \<open>
  C7 (amended). The phrase of the command \<open>respond\<close> sends is the entry of the table
  \<open>STATUS_TEXTS\<close> for the code the command carries. With status 404 the code is 404
  and the phrase is "Not Found". With a status other than zero that is not in the
  table, such as 999, the command carries that code and no phrase, and the method
  succeeds when the send does.
\<close>

theorem respond_status_phrase:
  assumes "\<not> handled this"
  shows "responsePhrase (last (client (snd (respond h this response out))))
           = STATUS_TEXTS (responseCode (last (client (snd (respond h this response out)))))
       \<and> (response_status response = Some 404
          \<longrightarrow> responseCode (last (client (snd (respond h this response out)))) = 404
              \<and> responsePhrase (last (client (snd (respond h this response out)))) = Some ''Not Found'')
       \<and> (response_status response = Some status \<and> status \<noteq> 0 \<and> STATUS_TEXTS status = None
          \<longrightarrow> responseCode (last (client (snd (respond h this response out)))) = status
              \<and> responsePhrase (last (client (snd (respond h this response out)))) = None
              \<and> fst (respond h this response Resolved) = Inr ()
              \<and> handled (snd (respond h this response Resolved)))
       \<and> STATUS_TEXTS 999 = None"
proof -
  have nf: "STATUS_TEXTS 404 = Some ''Not Found''"
    by (simp add: STATUS_TEXTS_def STATUS_TEXTS_table_def)
  have unknown: "STATUS_TEXTS 999 = None"
    by (simp add: STATUS_TEXTS_def STATUS_TEXTS_table_def)
  have ok: "fst (respond h this response Resolved) = Inr () \<and> handled (snd (respond h this response Resolved))"
    using assms by (simp add: respond_def send_def Let_def)
  from assms nf unknown ok show ?thesis
    by (simp add: respond_command)
qed

theorem respond_status_phrase_witness:
  "\<not> handled example_request
   \<and> responsePhrase (last (client (snd (respond (handleError id) example_request
         example_response Resolved)))) = Some ''Not Found''
   \<and> STATUS_TEXTS 999 = None
   \<and> responsePhrase (last (client (snd (respond (handleError id) example_request
         (empty_response\<lparr>response_status := Some 999\<rparr>) Resolved)))) = None
   \<and> fst (respond (handleError id) example_request
         (empty_response\<lparr>response_status := Some 999\<rparr>) Resolved) = Inr ()"
proof -
  have pending: "\<not> handled example_request"
    by (simp add: example_request_def constructor_def)
  have st: "response_status example_response = Some 404"
    by (simp add: example_response_def)
  have unknown: "STATUS_TEXTS 999 = None"
    by (simp add: STATUS_TEXTS_def STATUS_TEXTS_table_def)
  from respond_status_phrase [OF pending, of "handleError id" example_response Resolved 999]
    respond_status_phrase [OF pending, of "handleError id"
      "empty_response\<lparr>response_status := Some 999\<rparr>" Resolved 999]
    pending st unknown
  show ?thesis by auto
qed

text \<open>
  C7 as stated fails for the status \<open>0\<close>: it is not in the table, but it is falsy,
  so the command carries the default code 200 and its phrase.
\<close>

theorem respond_status_zero_counterexample:
  "STATUS_TEXTS 0 = None
   \<and> client (snd (respond (handleError id) example_request
         (empty_response\<lparr>response_status := Some 0\<rparr>) Resolved))
       = [Fetch_fulfillRequest ''interception-job-1'' 200 (Some ''OK'') [] None]"
  by code_simp

end
